theory Spec2Isabelle
  imports Complex_Main "HOL-Library.Word" "HOL-Library.Log_Nat"
begin

section \<open>The token entity\<close>

text \<open>
  An instant of \<^verbatim>\<open>time.Time\<close> is the number of nanoseconds since the epoch; every
  instant the program handles has been through \<^verbatim>\<open>UTC()\<close>, so it carries a wall-clock
  reading only and \<^verbatim>\<open>After\<close> compares these numbers. A \<^verbatim>\<open>time.Duration\<close> is a signed
  64-bit count of nanoseconds.
\<close>

type_synonym instant = int

record Token =
  ID :: string
  Source :: string
  ConsumerID :: string
  IPAddress :: string
  ExpiresIn :: int
  Expiration :: instant
  CreatedAt :: instant

text \<open>
  \<^verbatim>\<open>time.Duration(_config.Token.Timeout) * time.Minute\<close>: the configured number of
  minutes is a parameter of the model (the configuration is loaded elsewhere); the
  product is taken in 64 bits and wraps.
\<close>

definition token_timeout :: "int \<Rightarrow> int" where
  "token_timeout Timeout = sint ((word_of_int Timeout :: 64 word) * 60000000000)"

text \<open>
  \<^verbatim>\<open>newToken\<close>: the clock reading, the configured timeout and the fresh UUID are
  parameters; the fields the literal leaves out have Go's zero values.
\<close>

definition newToken :: "instant \<Rightarrow> int \<Rightarrow> string \<Rightarrow> string \<Rightarrow> Token" where
  "newToken now Timeout uuid consumerID =
     \<lparr>ID = uuid, Source = [], ConsumerID = consumerID, IPAddress = [], ExpiresIn = 0,
      Expiration = now + token_timeout Timeout, CreatedAt = now\<rparr>"

definition isValid :: "instant \<Rightarrow> Token \<Rightarrow> bool" where
  "isValid now t = (if Expiration t < now then False else True)"

definition renew :: "instant \<Rightarrow> int \<Rightarrow> Token \<Rightarrow> Token" where
  "renew now Timeout t = t\<lparr>Expiration := now + token_timeout Timeout\<rparr>"

text \<open>
  \<^verbatim>\<open>Time.Sub\<close> saturates at the ends of the 64-bit range of a duration.
\<close>

definition time_Sub :: "instant \<Rightarrow> instant \<Rightarrow> int" where
  "time_Sub t u = max (- (2 ^ 63)) (min (2 ^ 63 - 1) (t - u))"

text \<open>
  Go's integer division and remainder truncate towards zero.
\<close>

definition go_quo :: "int \<Rightarrow> int \<Rightarrow> int" where
  "go_quo a b = (if (a < 0) = (b < 0) then \<bar>a\<bar> div \<bar>b\<bar> else - (\<bar>a\<bar> div \<bar>b\<bar>))"

definition go_rem :: "int \<Rightarrow> int \<Rightarrow> int" where
  "go_rem a b = a - b * go_quo a b"

text \<open>
  \<^verbatim>\<open>float64\<close> values are the rationals they denote. \<open>float64\<close> rounds a rational to the
  nearest value with a 53-bit significand, ties to the even significand, as every
  arithmetic operation of IEEE 754 binary64 does; the magnitudes met here (between one
  nanosecond and the 292 years of a duration, in seconds) are far from overflow and
  from the subnormal range, which are not modelled.
\<close>

definition ilog2 :: "rat \<Rightarrow> int" where
  "ilog2 a =
     (let (p, q) = quotient_of a;
          e = bitlen p - bitlen q
      in if 2 powi e \<le> a then e else e - 1)"

definition round_half_even :: "rat \<Rightarrow> int" where
  "round_half_even x =
     (let f = \<lfloor>x\<rfloor>; d = x - of_int f
      in if d < 1 / 2 then f
         else if 1 / 2 < d then f + 1
         else if even f then f else f + 1)"

definition float64 :: "rat \<Rightarrow> rat" where
  "float64 x =
     (if x = 0 then 0
      else
        (let a = \<bar>x\<bar>;
             u = 2 powi (ilog2 a - 52)
         in sgn x * of_int (round_half_even (a / u)) * u))"

text \<open>The conversion \<^verbatim>\<open>int64(f)\<close> of a float discards the fraction.\<close>

definition int64_of_float :: "rat \<Rightarrow> int" where
  "int64_of_float f = (if 0 \<le> f then \<lfloor>f\<rfloor> else \<lceil>f\<rceil>)"

text \<open>
  \<^verbatim>\<open>int64(d.Seconds())\<close>, with \<^verbatim>\<open>Duration.Seconds\<close> as the standard library has it:
  \<^verbatim>\<open>sec := d / Second; nsec := d % Second; return float64(sec) + float64(nsec)/1e9\<close>.
  The two conversions are exact, the division and the sum round.
\<close>

definition Seconds :: "int \<Rightarrow> int" where
  "Seconds d =
     (let sec = go_quo d 1000000000;
          nsec = go_rem d 1000000000
      in int64_of_float (float64 (of_int sec + float64 (of_int nsec / 1000000000))))"

section \<open>Errors\<close>

text \<open>
  Modelled from the spec: the type \<^verbatim>\<open>AppError\<close> is declared outside the listed sources;
  it is taken with the two fields the sources fill in, \<^verbatim>\<open>ErrorCode\<close> and \<^verbatim>\<open>Message\<close>.
  Every other Go error is a \<open>LibError\<close> carrying the text that \<^verbatim>\<open>Error()\<close> returns.
  The spec's \<^verbatim>\<open>DuplicateKey\<close> and \<^verbatim>\<open>NotFound\<close> conditions are the \<^verbatim>\<open>AppError\<close> values
  the backends build for them.
\<close>

datatype error = AppError (ErrorCode: string) (Message: string) | LibError string

text \<open>A call either returns or panics with an error value.\<close>

datatype 'a outcome = Returns 'a | Panics error

section \<open>The in-process store\<close>

text \<open>
  The Go map \<^verbatim>\<open>map[string]*Token\<close> is an association list with one entry per key; the
  order of the list is the order in which a \<^verbatim>\<open>range\<close> visits the entries, which Go
  leaves open. No stored pointer is nil (\<^verbatim>\<open>Insert\<close> and \<^verbatim>\<open>Update\<close> dereference the
  token before storing it), so a missing key and a nil value coincide. The lock makes
  each operation atomic; the operations are modelled one at a time.
\<close>

fun go_map_index :: "(string \<times> 'v) list \<Rightarrow> string \<Rightarrow> 'v option" where
  "go_map_index [] k = None"
| "go_map_index ((k', v) # m) k = (if k' = k then Some v else go_map_index m k)"

fun go_map_assign :: "string \<Rightarrow> 'v \<Rightarrow> (string \<times> 'v) list \<Rightarrow> (string \<times> 'v) list" where
  "go_map_assign k v [] = [(k, v)]"
| "go_map_assign k v ((k', v') # m) =
     (if k' = k then (k, v) # m else (k', v') # go_map_assign k v m)"

fun go_map_delete :: "string \<Rightarrow> (string \<times> 'v) list \<Rightarrow> (string \<times> 'v) list" where
  "go_map_delete k [] = []"
| "go_map_delete k ((k', v') # m) =
     (if k' = k then go_map_delete k m else (k', v') # go_map_delete k m)"

record TokenMemStore =
  data :: "(string \<times> Token) list"

definition newTokenMemStore :: TokenMemStore where
  "newTokenMemStore = \<lparr>data = []\<rparr>"

definition TokenMemStore_Get ::
  "string \<Rightarrow> TokenMemStore \<Rightarrow> Token option \<times> error option" where
  "TokenMemStore_Get key ts = (let result = go_map_index (data ts) key in (result, None))"

fun TokenMemStore_GetByConsumerID_loop :: "string \<Rightarrow> (string \<times> Token) list \<Rightarrow> Token list \<Rightarrow> Token list" where
  "TokenMemStore_GetByConsumerID_loop consumerID [] result = result"
| "TokenMemStore_GetByConsumerID_loop consumerID ((k, token) # rest) result =
     (if ConsumerID token = consumerID
      then TokenMemStore_GetByConsumerID_loop consumerID rest (result @ [token])
      else TokenMemStore_GetByConsumerID_loop consumerID rest result)"

definition TokenMemStore_GetByConsumerID ::
  "string \<Rightarrow> TokenMemStore \<Rightarrow> Token list \<times> error option" where
  "TokenMemStore_GetByConsumerID consumerID ts =
     (TokenMemStore_GetByConsumerID_loop consumerID (data ts) [], None)"

definition TokenMemStore_Insert ::
  "instant \<Rightarrow> Token \<Rightarrow> TokenMemStore \<Rightarrow> error option \<times> TokenMemStore" where
  "TokenMemStore_Insert now token ts =
     (case go_map_index (data ts) (ID token) of
        Some oldToken \<Rightarrow>
          (Some (AppError ''invalid_input'' ''The token key already exits.''), ts)
      | None \<Rightarrow>
          (let token = token\<lparr>CreatedAt := now\<rparr>
           in (None, ts\<lparr>data := go_map_assign (ID token) token (data ts)\<rparr>)))"

definition TokenMemStore_Update ::
  "Token \<Rightarrow> TokenMemStore \<Rightarrow> error option \<times> TokenMemStore" where
  "TokenMemStore_Update token ts =
     (case go_map_index (data ts) (ID token) of
        None \<Rightarrow> (Some (AppError ''invalid_input'' ''The token was not found.''), ts)
      | Some oldToken \<Rightarrow>
          (None, ts\<lparr>data := go_map_assign (ID token) token (data ts)\<rparr>))"

definition TokenMemStore_Delete ::
  "string \<Rightarrow> TokenMemStore \<Rightarrow> error option \<times> TokenMemStore" where
  "TokenMemStore_Delete key ts = (None, ts\<lparr>data := go_map_delete key (data ts)\<rparr>)"

text \<open>
  \<^verbatim>\<open>DeleteByConsumerID\<close> deletes while it ranges over the map. The first list is what
  the range still has to visit, the second the map as it stands; an entry removed
  before the range reaches it is not produced.
\<close>

fun TokenMemStore_DeleteByConsumerID_loop ::
  "string \<Rightarrow> (string \<times> Token) list \<Rightarrow> (string \<times> Token) list \<Rightarrow> (string \<times> Token) list" where
  "TokenMemStore_DeleteByConsumerID_loop consumerID [] m = m"
| "TokenMemStore_DeleteByConsumerID_loop consumerID ((k, token) # rest) m =
     (if go_map_index m k = None
      then TokenMemStore_DeleteByConsumerID_loop consumerID rest m
      else if ConsumerID token = consumerID
      then TokenMemStore_DeleteByConsumerID_loop consumerID rest (go_map_delete (ID token) m)
      else TokenMemStore_DeleteByConsumerID_loop consumerID rest m)"

definition TokenMemStore_DeleteByConsumerID ::
  "string \<Rightarrow> TokenMemStore \<Rightarrow> error option \<times> TokenMemStore" where
  "TokenMemStore_DeleteByConsumerID consumerID ts =
     (None, ts\<lparr>data := TokenMemStore_DeleteByConsumerID_loop consumerID (data ts) (data ts)\<rparr>)"

section \<open>The document-store backend\<close>

text \<open>
  The collection \<^verbatim>\<open>bifrost.tokens\<close> is the list of its documents in natural order. A
  document is a token as BSON keeps it: the field tagged \<^verbatim>\<open>bson:"-"\<close> is left out, so
  it reads back as zero, and an instant is kept in whole milliseconds since the epoch
  (the driver writes \<^verbatim>\<open>Unix()*1000 + Nanosecond()/1e6\<close>), so it reads back rounded down to
  the millisecond. The driver calls below follow \<^verbatim>\<open>mgo.v2\<close> on a session dialled
  with its defaults (safe mode): \<^verbatim>\<open>One\<close> and \<^verbatim>\<open>Remove\<close> and \<^verbatim>\<open>Update\<close> act on a single
  matching document and report \<^verbatim>\<open>not found\<close> when there is none, \<^verbatim>\<open>Insert\<close> reports the
  server's \<^verbatim>\<open>E11000\<close> error for an \<^verbatim>\<open>_id\<close> already present.

  \<open>mgo_faults\<close> scripts the transport: every driver call takes the next entry, and an
  entry \<open>Some m\<close> makes that call fail with the error text \<open>m\<close>; with the script used up
  every call reaches the server.
\<close>

record MongoDB =
  documents :: "Token list"
  mgo_faults :: "string option list"

definition bson_time :: "instant \<Rightarrow> instant" where
  "bson_time t = (t div 1000000) * 1000000"

definition bson_doc :: "Token \<Rightarrow> Token" where
  "bson_doc t =
     t\<lparr>ExpiresIn := 0, Expiration := bson_time (Expiration t), CreatedAt := bson_time (CreatedAt t)\<rparr>"

definition mgo_step :: "MongoDB \<Rightarrow> string option \<times> MongoDB" where
  "mgo_step db = (case mgo_faults db of [] \<Rightarrow> (None, db) | f # fs \<Rightarrow> (f, db\<lparr>mgo_faults := fs\<rparr>))"

definition mgo_Dial :: "MongoDB \<Rightarrow> string option \<times> MongoDB" where
  "mgo_Dial db = mgo_step db"

definition mgo_One :: "(Token \<Rightarrow> bool) \<Rightarrow> MongoDB \<Rightarrow> (Token option \<times> string option) \<times> MongoDB" where
  "mgo_One sel db =
     (case mgo_step db of
        (Some m, db1) \<Rightarrow> ((None, Some m), db1)
      | (None, db1) \<Rightarrow>
          (case find sel (documents db1) of
             None \<Rightarrow> ((None, Some ''not found''), db1)
           | Some d \<Rightarrow> ((Some d, None), db1)))"

definition mgo_All :: "(Token \<Rightarrow> bool) \<Rightarrow> MongoDB \<Rightarrow> (Token list \<times> string option) \<times> MongoDB" where
  "mgo_All sel db =
     (case mgo_step db of
        (Some m, db1) \<Rightarrow> (([], Some m), db1)
      | (None, db1) \<Rightarrow> ((filter sel (documents db1), None), db1))"

definition mgo_Insert :: "Token \<Rightarrow> MongoDB \<Rightarrow> string option \<times> MongoDB" where
  "mgo_Insert doc db =
     (case mgo_step db of
        (Some m, db1) \<Rightarrow> (Some m, db1)
      | (None, db1) \<Rightarrow>
          (case find (\<lambda>d. ID d = ID doc) (documents db1) of
             Some d \<Rightarrow> (Some ''E11000 duplicate key error collection: bifrost.tokens index: _id_'', db1)
           | None \<Rightarrow> (None, db1\<lparr>documents := documents db1 @ [bson_doc doc]\<rparr>)))"

fun replace_first :: "('a \<Rightarrow> bool) \<Rightarrow> 'a \<Rightarrow> 'a list \<Rightarrow> 'a list" where
  "replace_first sel y [] = []"
| "replace_first sel y (x # xs) = (if sel x then y # xs else x # replace_first sel y xs)"

fun remove_first :: "('a \<Rightarrow> bool) \<Rightarrow> 'a list \<Rightarrow> 'a list" where
  "remove_first sel [] = []"
| "remove_first sel (x # xs) = (if sel x then xs else x # remove_first sel xs)"

definition mgo_Update :: "(Token \<Rightarrow> bool) \<Rightarrow> Token \<Rightarrow> MongoDB \<Rightarrow> string option \<times> MongoDB" where
  "mgo_Update sel doc db =
     (case mgo_step db of
        (Some m, db1) \<Rightarrow> (Some m, db1)
      | (None, db1) \<Rightarrow>
          (case find sel (documents db1) of
             None \<Rightarrow> (Some ''not found'', db1)
           | Some d \<Rightarrow> (None, db1\<lparr>documents := replace_first sel (bson_doc doc) (documents db1)\<rparr>)))"

definition mgo_Remove :: "(Token \<Rightarrow> bool) \<Rightarrow> MongoDB \<Rightarrow> string option \<times> MongoDB" where
  "mgo_Remove sel db =
     (case mgo_step db of
        (Some m, db1) \<Rightarrow> (Some m, db1)
      | (None, db1) \<Rightarrow>
          (case find sel (documents db1) of
             None \<Rightarrow> (Some ''not found'', db1)
           | Some d \<Rightarrow> (None, db1\<lparr>documents := remove_first sel (documents db1)\<rparr>)))"

text \<open>The operations of \<^verbatim>\<open>tokenMongo\<close>; \<^verbatim>\<open>newSession\<close> is \<^verbatim>\<open>mgo.Dial\<close>.\<close>

definition tokenMongo_Get ::
  "string \<Rightarrow> MongoDB \<Rightarrow> (Token option \<times> error option) \<times> MongoDB" where
  "tokenMongo_Get key db =
     (case mgo_Dial db of
        (Some m, db1) \<Rightarrow> ((None, Some (LibError m)), db1)
      | (None, db1) \<Rightarrow>
          (case mgo_One (\<lambda>d. ID d = key) db1 of
             ((token, Some m), db2) \<Rightarrow>
               (if m = ''not found'' then ((None, None), db2)
                else ((None, Some (LibError m)), db2))
           | ((token, None), db2) \<Rightarrow> ((token, None), db2)))"

definition tokenMongo_GetByConsumerID ::
  "string \<Rightarrow> MongoDB \<Rightarrow> (Token list \<times> error option) \<times> MongoDB" where
  "tokenMongo_GetByConsumerID consumerID db =
     (case mgo_Dial db of
        (Some m, db1) \<Rightarrow> (([], Some (LibError m)), db1)
      | (None, db1) \<Rightarrow>
          (case mgo_All (\<lambda>d. ConsumerID d = consumerID) db1 of
             ((tokens, Some m), db2) \<Rightarrow>
               (if m = ''not found'' then (([], None), db2)
                else (([], Some (LibError m)), db2))
           | ((tokens, None), db2) \<Rightarrow> ((tokens, None), db2)))"

definition tokenMongo_Insert ::
  "instant \<Rightarrow> Token \<Rightarrow> MongoDB \<Rightarrow> error option \<times> MongoDB" where
  "tokenMongo_Insert now token db =
     (case mgo_Dial db of
        (Some m, db1) \<Rightarrow> (Some (LibError m), db1)
      | (None, db1) \<Rightarrow>
          (let token = token\<lparr>CreatedAt := now\<rparr>
           in case mgo_Insert token db1 of
                (Some m, db2) \<Rightarrow>
                  (if take 6 m = ''E11000''
                   then (Some (AppError ''invalid_input'' ''The token key already exits''), db2)
                   else (Some (LibError m), db2))
              | (None, db2) \<Rightarrow> (None, db2)))"

definition tokenMongo_Update ::
  "Token \<Rightarrow> MongoDB \<Rightarrow> error option \<times> MongoDB" where
  "tokenMongo_Update token db =
     (case mgo_Dial db of
        (Some m, db1) \<Rightarrow> (Some (LibError m), db1)
      | (None, db1) \<Rightarrow>
          (case mgo_Update (\<lambda>d. ID d = ID token) token db1 of
             (Some m, db2) \<Rightarrow> (Some (LibError m), db2)
           | (None, db2) \<Rightarrow> (None, db2)))"

definition tokenMongo_Delete ::
  "string \<Rightarrow> MongoDB \<Rightarrow> error option \<times> MongoDB" where
  "tokenMongo_Delete key db =
     (case mgo_Dial db of
        (Some m, db1) \<Rightarrow> (Some (LibError m), db1)
      | (None, db1) \<Rightarrow>
          (case mgo_Remove (\<lambda>d. ID d = key) db1 of
             (Some m, db2) \<Rightarrow> (Some (LibError m), db2)
           | (None, db2) \<Rightarrow> (None, db2)))"

definition tokenMongo_DeleteByConsumerID ::
  "string \<Rightarrow> MongoDB \<Rightarrow> error option \<times> MongoDB" where
  "tokenMongo_DeleteByConsumerID consumerID db =
     (case mgo_Dial db of
        (Some m, db1) \<Rightarrow> (Some (LibError m), db1)
      | (None, db1) \<Rightarrow>
          (case mgo_Remove (\<lambda>d. ConsumerID d = consumerID) db1 of
             (Some m, db2) \<Rightarrow> (Some (LibError m), db2)
           | (None, db2) \<Rightarrow> (None, db2)))"

section \<open>The key-value backend\<close>

text \<open>
  \<^verbatim>\<open>json.Marshal\<close> of a token fails only on an instant whose year lies outside 0 to 9999
  (\<^verbatim>\<open>Time.MarshalJSON\<close>); the bounds are the first instants of the years 0 and 10000.
  The text it gives stands in the model as the token it was made from (the value
  returned beside an error is not used). Reading the
  text back gives that token, except that \<^verbatim>\<open>Marshal\<close> has replaced every byte of a
  string that is not part of a well-formed UTF-8 sequence by U+FFFD. An instant is
  written with its nanoseconds and reads back unchanged.
\<close>

definition year_in_range :: "instant \<Rightarrow> bool" where
  "year_in_range t =
     (- 62167219200 * 1000000000 \<le> t \<and> t < 253402300800 * 1000000000)"

definition continuation :: "nat \<Rightarrow> nat \<Rightarrow> char \<Rightarrow> bool" where
  "continuation lo hi c = (lo \<le> of_char c \<and> of_char c \<le> hi)"

text \<open>
  The number of bytes of the well-formed UTF-8 sequence at the head of a string, 0 when
  there is none (\<^verbatim>\<open>utf8.DecodeRuneInString\<close> then returns \<^verbatim>\<open>RuneError\<close> with width 1).
\<close>

fun utf8_size :: "string \<Rightarrow> nat" where
  "utf8_size [] = 0"
| "utf8_size (c # cs) =
     (let b = of_char c :: nat
      in if b < 128 then 1
         else if 194 \<le> b \<and> b \<le> 223 then
           (case cs of
              c1 # _ \<Rightarrow> if continuation 128 191 c1 then 2 else 0
            | _ \<Rightarrow> 0)
         else if 224 \<le> b \<and> b \<le> 239 then
           (case cs of
              c1 # c2 # _ \<Rightarrow>
                if continuation (if b = 224 then 160 else 128) (if b = 237 then 159 else 191) c1
                   \<and> continuation 128 191 c2
                then 3 else 0
            | _ \<Rightarrow> 0)
         else if 240 \<le> b \<and> b \<le> 244 then
           (case cs of
              c1 # c2 # c3 # _ \<Rightarrow>
                if continuation (if b = 240 then 144 else 128) (if b = 244 then 143 else 191) c1
                   \<and> continuation 128 191 c2 \<and> continuation 128 191 c3
                then 4 else 0
            | _ \<Rightarrow> 0)
         else 0)"

text \<open>
  A string after \<^verbatim>\<open>Marshal\<close> and \<^verbatim>\<open>Unmarshal\<close>; the first argument counts the bytes
  still to copy of the sequence being read.
\<close>

fun json_string :: "nat \<Rightarrow> string \<Rightarrow> string" where
  "json_string k [] = []"
| "json_string (Suc k) (c # cs) = c # json_string k cs"
| "json_string 0 (c # cs) =
     (case utf8_size (c # cs) of
        0 \<Rightarrow> [char_of (239 :: nat), char_of (191 :: nat), char_of (189 :: nat)] @ json_string 0 cs
      | Suc n \<Rightarrow> c # json_string n cs)"

definition json_Marshal :: "Token \<Rightarrow> Token \<times> string option" where
  "json_Marshal token =
     (if year_in_range (Expiration token) \<and> year_in_range (CreatedAt token)
      then (token, None)
      else (token, Some ''json: error calling MarshalJSON for type time.Time: Time.MarshalJSON: year outside of range [0,9999]''))"

definition json_Unmarshal :: "Token \<Rightarrow> Token" where
  "json_Unmarshal s =
     s\<lparr>ID := json_string 0 (ID s), Source := json_string 0 (Source s),
       ConsumerID := json_string 0 (ConsumerID s), IPAddress := json_string 0 (IPAddress s)\<rparr>"

text \<open>
  The Redis keyspace holds, under each key, a value and an optional time of expiry. A
  value is the JSON text of a token or a set of members, kept in the order \<^verbatim>\<open>SMEMBERS\<close>
  lists them. The server counts time in whole milliseconds since the epoch; its clock
  and the program's are one, and each operation runs at the instant \<open>now\<close>. A key is
  absent for every command once the server's time is past its time of expiry.

  The client calls follow \<^verbatim>\<open>redis.v4\<close>. \<^verbatim>\<open>Get\<close> on an absent key gives the error
  \<^verbatim>\<open>redis: nil\<close>. \<^verbatim>\<open>Set\<close> sends a positive expiration as whole milliseconds (\<^verbatim>\<open>PX\<close>) when
  it is under a second or not a whole number of seconds, and as whole seconds (\<^verbatim>\<open>EX\<close>)
  otherwise; the server refuses a time-to-live of 0, which is what a positive expiration
  under a millisecond becomes, and otherwise makes the key expire that long after its
  own time. With any other expiration \<^verbatim>\<open>Set\<close> stores the key without expiry, dropping an
  expiry the key had. \<^verbatim>\<open>SMembers\<close> on an absent key gives no members; a command on a key
  of the other kind fails with \<^verbatim>\<open>WRONGTYPE\<close>. \<open>redis_faults\<close> scripts the transport, one
  entry per client call, as for the document store.
\<close>

datatype rvalue = JSON Token | Members "string list"

record Redis =
  keyspace :: "(string \<times> (rvalue \<times> int option)) list"
  redis_faults :: "string option list"

definition mstime :: "instant \<Rightarrow> int" where
  "mstime now = now div 1000000"

definition redis_step :: "Redis \<Rightarrow> string option \<times> Redis" where
  "redis_step r =
     (case redis_faults r of [] \<Rightarrow> (None, r) | f # fs \<Rightarrow> (f, r\<lparr>redis_faults := fs\<rparr>))"

definition redis_lookup :: "instant \<Rightarrow> Redis \<Rightarrow> string \<Rightarrow> rvalue option" where
  "redis_lookup now r key =
     (case go_map_index (keyspace r) key of
        None \<Rightarrow> None
      | Some (v, None) \<Rightarrow> Some v
      | Some (v, Some when) \<Rightarrow> (if when < mstime now then None else Some v))"

definition redis_expiry :: "instant \<Rightarrow> Redis \<Rightarrow> string \<Rightarrow> int option" where
  "redis_expiry now r key =
     (case go_map_index (keyspace r) key of
        None \<Rightarrow> None
      | Some (v, None) \<Rightarrow> None
      | Some (v, Some when) \<Rightarrow> (if when < mstime now then None else Some when))"

definition WRONGTYPE :: string where
  "WRONGTYPE = ''WRONGTYPE Operation against a key holding the wrong kind of value''"

definition redis_Get :: "instant \<Rightarrow> string \<Rightarrow> Redis \<Rightarrow> (Token option \<times> string option) \<times> Redis" where
  "redis_Get now key r =
     (case redis_step r of
        (Some m, r1) \<Rightarrow> ((None, Some m), r1)
      | (None, r1) \<Rightarrow>
          (case redis_lookup now r1 key of
             None \<Rightarrow> ((None, Some ''redis: nil''), r1)
           | Some (JSON s) \<Rightarrow> ((Some s, None), r1)
           | Some (Members ms) \<Rightarrow> ((None, Some WRONGTYPE), r1)))"

definition redis_SMembers :: "instant \<Rightarrow> string \<Rightarrow> Redis \<Rightarrow> (string list \<times> string option) \<times> Redis" where
  "redis_SMembers now key r =
     (case redis_step r of
        (Some m, r1) \<Rightarrow> (([], Some m), r1)
      | (None, r1) \<Rightarrow>
          (case redis_lookup now r1 key of
             None \<Rightarrow> (([], None), r1)
           | Some (Members ms) \<Rightarrow> ((ms, None), r1)
           | Some (JSON s) \<Rightarrow> (([], Some WRONGTYPE), r1)))"

definition redis_Exists :: "instant \<Rightarrow> string \<Rightarrow> Redis \<Rightarrow> (bool \<times> string option) \<times> Redis" where
  "redis_Exists now key r =
     (case redis_step r of
        (Some m, r1) \<Rightarrow> ((False, Some m), r1)
      | (None, r1) \<Rightarrow>
          (case redis_lookup now r1 key of
             None \<Rightarrow> ((False, None), r1)
           | Some v \<Rightarrow> ((True, None), r1)))"

text \<open>
  What the client puts after the value of a \<^verbatim>\<open>SET\<close>: nothing, or the time-to-live in
  milliseconds (\<^verbatim>\<open>px\<close> with \<^verbatim>\<open>formatMs\<close>, \<^verbatim>\<open>ex\<close> with \<^verbatim>\<open>formatSec\<close>).
\<close>

definition usePrecise :: "int \<Rightarrow> bool" where
  "usePrecise dur = (dur < 1000000000 \<or> go_rem dur 1000000000 \<noteq> 0)"

definition set_ttl_ms :: "int \<Rightarrow> int option" where
  "set_ttl_ms expiration =
     (if 0 < expiration
      then (if usePrecise expiration
            then Some (go_quo expiration 1000000)
            else Some (go_quo expiration 1000000000 * 1000))
      else None)"

definition redis_Set :: "instant \<Rightarrow> string \<Rightarrow> Token \<Rightarrow> int \<Rightarrow> Redis \<Rightarrow> string option \<times> Redis" where
  "redis_Set now key val expiration r =
     (case redis_step r of
        (Some m, r1) \<Rightarrow> (Some m, r1)
      | (None, r1) \<Rightarrow>
          (case set_ttl_ms expiration of
             None \<Rightarrow>
               (None, r1\<lparr>keyspace := go_map_assign key (JSON val, None) (keyspace r1)\<rparr>)
           | Some ttl \<Rightarrow>
               if ttl \<le> 0 then (Some ''ERR invalid expire time in set'', r1)
               else
                 (None, r1\<lparr>keyspace :=
                    go_map_assign key (JSON val, Some (mstime now + ttl)) (keyspace r1)\<rparr>)))"

definition redis_SAdd :: "instant \<Rightarrow> string \<Rightarrow> string \<Rightarrow> Redis \<Rightarrow> string option \<times> Redis" where
  "redis_SAdd now key member r =
     (case redis_step r of
        (Some m, r1) \<Rightarrow> (Some m, r1)
      | (None, r1) \<Rightarrow>
          (case redis_lookup now r1 key of
             None \<Rightarrow>
               (None, r1\<lparr>keyspace := go_map_assign key (Members [member], None) (keyspace r1)\<rparr>)
           | Some (Members ms) \<Rightarrow>
               (None, r1\<lparr>keyspace :=
                  go_map_assign key
                    (Members (if member \<in> set ms then ms else ms @ [member]),
                     redis_expiry now r1 key)
                    (keyspace r1)\<rparr>)
           | Some (JSON s) \<Rightarrow> (Some WRONGTYPE, r1)))"

definition redis_Del :: "instant \<Rightarrow> string \<Rightarrow> Redis \<Rightarrow> string option \<times> Redis" where
  "redis_Del now key r =
     (case redis_step r of
        (Some m, r1) \<Rightarrow> (Some m, r1)
      | (None, r1) \<Rightarrow> (None, r1\<lparr>keyspace := go_map_delete key (keyspace r1)\<rparr>))"

text \<open>
  Modelled from the spec: the helper \<^verbatim>\<open>panicIf\<close> is declared outside the listed sources
  and the spec does not describe it; it is taken by its name and by its use at every
  call site: a nil error falls through to the rest of the function, any other error
  panics with that error. The state is the keyspace as the panic leaves it.
\<close>

definition panicIf :: "error option \<Rightarrow> 's \<Rightarrow> 'a outcome \<times> 's \<Rightarrow> 'a outcome \<times> 's" where
  "panicIf err st rest = (case err of Some e \<Rightarrow> (Panics e, st) | None \<Rightarrow> rest)"

definition lib :: "string option \<Rightarrow> error option" where
  "lib err = map_option LibError err"

definition tokenRedis_Get ::
  "instant \<Rightarrow> string \<Rightarrow> Redis \<Rightarrow> (Token option \<times> error option) outcome \<times> Redis" where
  "tokenRedis_Get now id' r =
     (let key = ''token:id:'' @ id';
          nowUTC = now;
          ((s, err), r1) = redis_Get now key r
      in if err = Some ''redis: nil'' then (Returns (None, None), r1)
         else panicIf (lib err) r1
           (case s of
              None \<Rightarrow> (Panics (LibError ''unexpected end of JSON input''), r1)
            | Some s \<Rightarrow>
                (let token = json_Unmarshal s
                 in (Returns
                       (Some (token\<lparr>ExpiresIn := Seconds (time_Sub (Expiration token) nowUTC)\<rparr>),
                        None), r1))))"

fun tokenRedis_GetByConsumerID_loop ::
  "instant \<Rightarrow> string list \<Rightarrow> Token list \<Rightarrow> Redis \<Rightarrow> Token list outcome \<times> Redis" where
  "tokenRedis_GetByConsumerID_loop now [] result r = (Returns result, r)"
| "tokenRedis_GetByConsumerID_loop now (val # rest) result r =
     (case tokenRedis_Get now val r of
        (Panics e, r1) \<Rightarrow> (Panics e, r1)
      | (Returns (token, err), r1) \<Rightarrow>
          panicIf err r1
            (case token of
               Some t \<Rightarrow> tokenRedis_GetByConsumerID_loop now rest (result @ [t]) r1
             | None \<Rightarrow> tokenRedis_GetByConsumerID_loop now rest result r1))"

definition tokenRedis_GetByConsumerID ::
  "instant \<Rightarrow> string \<Rightarrow> Redis \<Rightarrow> (Token list \<times> error option) outcome \<times> Redis" where
  "tokenRedis_GetByConsumerID now consumerID r =
     (let key = ''token:consumer:'' @ consumerID;
          ((tokenIDs, err), r1) = redis_SMembers now key r
      in if err = Some ''redis: nil'' then (Returns ([], None), r1)
         else panicIf (lib err) r1
           (case tokenRedis_GetByConsumerID_loop now tokenIDs [] r1 of
              (Panics e, r2) \<Rightarrow> (Panics e, r2)
            | (Returns result, r2) \<Rightarrow> (Returns (result, None), r2)))"

definition tokenRedis_Insert ::
  "instant \<Rightarrow> Token \<Rightarrow> Redis \<Rightarrow> error option outcome \<times> Redis" where
  "tokenRedis_Insert now token r =
     (let token = token\<lparr>CreatedAt := now\<rparr>;
          key = ''token:id:'' @ ID token;
          ((exists, err), r1) = redis_Exists now key r
      in panicIf (lib err) r1
           (if exists
            then (Returns (Some (AppError ''invalid_input'' ''The token key already exits'')), r1)
            else
              (let (val, err) = json_Marshal token
               in panicIf (lib err) r1
                    (let exp' = time_Sub (Expiration token) now;
                         (err, r2) = redis_Set now key val exp' r1
                     in panicIf (lib err) r2
                          (let key = ''token:consumer:'' @ ConsumerID token;
                               (err, r3) = redis_SAdd now key (ID token) r2
                           in panicIf (lib err) r3 (Returns None, r3))))))"

definition tokenRedis_Update ::
  "instant \<Rightarrow> Token \<Rightarrow> Redis \<Rightarrow> error option outcome \<times> Redis" where
  "tokenRedis_Update now token r =
     (let (val, err) = json_Marshal token
      in panicIf (lib err) r
           (let key = ''token:id:'' @ ID token;
                (err, r1) = redis_Set now key val 0 r
            in panicIf (lib err) r1 (Returns None, r1)))"

definition tokenRedis_Delete ::
  "instant \<Rightarrow> string \<Rightarrow> Redis \<Rightarrow> error option outcome \<times> Redis" where
  "tokenRedis_Delete now id' r =
     (let key = ''token:id:'' @ id';
          (err, r1) = redis_Del now key r
      in panicIf (lib err) r1 (Returns None, r1))"

fun tokenRedis_DeleteByConsumerID_loop ::
  "instant \<Rightarrow> string list \<Rightarrow> Redis \<Rightarrow> unit outcome \<times> Redis" where
  "tokenRedis_DeleteByConsumerID_loop now [] r = (Returns (), r)"
| "tokenRedis_DeleteByConsumerID_loop now (val # rest) r =
     (case tokenRedis_Delete now val r of
        (Panics e, r1) \<Rightarrow> (Panics e, r1)
      | (Returns err, r1) \<Rightarrow>
          panicIf err r1 (tokenRedis_DeleteByConsumerID_loop now rest r1))"

definition tokenRedis_DeleteByConsumerID ::
  "instant \<Rightarrow> string \<Rightarrow> Redis \<Rightarrow> error option outcome \<times> Redis" where
  "tokenRedis_DeleteByConsumerID now consumerID r =
     (let key = ''token:consumer:'' @ consumerID;
          ((tokenIDs, err), r1) = redis_SMembers now key r
      in if err = Some ''redis: nil'' then (Returns None, r1)
         else panicIf (lib err) r1
           (case tokenRedis_DeleteByConsumerID_loop now tokenIDs r1 of
              (Panics e, r2) \<Rightarrow> (Panics e, r2)
            | (Returns u, r2) \<Rightarrow>
                (let (err, r3) = redis_Del now key r2
                 in panicIf (lib err) r3 (Returns None, r3))))"

section \<open>Well-formed in-process stores\<close>

text \<open>
  Every entry of the map sits under the id of its token: \<^verbatim>\<open>Insert\<close> and \<^verbatim>\<open>Update\<close>
  store a token under \<^verbatim>\<open>token.ID\<close> and nothing else writes to the map.
\<close>

definition keyed_by_ID :: "(string \<times> Token) list \<Rightarrow> bool" where
  "keyed_by_ID m = list_all (\<lambda>e. fst e = ID (snd e)) m"

section \<open>Sample values\<close>

text \<open>
  The tokens of the spec's scenarios: issued at instant 0 with a timeout of 60 minutes,
  two of them for the owner \<^verbatim>\<open>C1\<close>, and the three stores after inserting both.
\<close>

definition tokenT1 :: Token where
  "tokenT1 = newToken 0 60 ''T1'' ''C1''"

definition tokenT2 :: Token where
  "tokenT2 = newToken 0 60 ''T2'' ''C1''"

definition emptyMongoDB :: MongoDB where
  "emptyMongoDB = \<lparr>documents = [], mgo_faults = []\<rparr>"

definition emptyRedis :: Redis where
  "emptyRedis = \<lparr>keyspace = [], redis_faults = []\<rparr>"

definition memT1T2 :: TokenMemStore where
  "memT1T2 = snd (TokenMemStore_Insert 0 tokenT2 (snd (TokenMemStore_Insert 0 tokenT1 newTokenMemStore)))"

definition mongoT1T2 :: MongoDB where
  "mongoT1T2 = snd (tokenMongo_Insert 0 tokenT2 (snd (tokenMongo_Insert 0 tokenT1 emptyMongoDB)))"

definition redisT1T2 :: Redis where
  "redisT1T2 = snd (tokenRedis_Insert 0 tokenT2 (snd (tokenRedis_Insert 0 tokenT1 emptyRedis)))"

section \<open>Basic facts about the stores\<close>

lemma go_map_index_assign:
  "go_map_index (go_map_assign k v m) k' = (if k' = k then Some v else go_map_index m k')"
  by (induction m) auto

lemma go_map_index_delete:
  "go_map_index (go_map_delete k m) k' = (if k' = k then None else go_map_index m k')"
  by (induction m) auto

lemma go_map_delete_absent: "go_map_index m k = None \<Longrightarrow> go_map_delete k m = m"
  by (induction m) (auto split: if_splits)

lemma in_go_map_delete:
  "(k', v) \<in> set (go_map_delete k m) \<longleftrightarrow> (k', v) \<in> set m \<and> k' \<noteq> k"
  by (induction m) (auto split: if_splits)

lemma go_map_index_member: "(k, v) \<in> set m \<Longrightarrow> go_map_index m k \<noteq> None"
  by (induction m) auto

lemma go_map_index_fold_delete:
  "go_map_index (fold (\<lambda>i. go_map_delete (f i)) ids m) k =
     (if k \<in> f ` set ids then None else go_map_index m k)"
  by (induction ids arbitrary: m) (auto simp: go_map_index_delete)

lemma find_append_last: "P y \<Longrightarrow> find P xs = None \<Longrightarrow> find P (xs @ [y]) = Some y"
  by (induction xs) (auto split: if_splits)

lemma mgo_step_nofault: "mgo_faults db = [] \<Longrightarrow> mgo_step db = (None, db)"
  by (simp add: mgo_step_def)

lemma redis_step_nofault: "redis_faults r = [] \<Longrightarrow> redis_step r = (None, r)"
  by (simp add: redis_step_def)

lemma redis_lookup_faults [simp]:
  "redis_lookup now (r\<lparr>redis_faults := fs\<rparr>) k = redis_lookup now r k"
  by (simp add: redis_lookup_def)

text \<open>The keys of the primary records and the keys of the owner index never coincide.\<close>

lemma key_prefixes_differ [simp]:
  "''token:id:'' @ a \<noteq> ''token:consumer:'' @ b"
  "''token:consumer:'' @ b \<noteq> ''token:id:'' @ a"
  by simp_all

lemmas sample_defs = tokenT1_def tokenT2_def emptyMongoDB_def emptyRedis_def
  newTokenMemStore_def newToken_def token_timeout_def

lemmas redis_eval_defs = tokenRedis_Insert_def tokenRedis_Update_def redis_Exists_def
  redis_Set_def redis_SAdd_def redis_step_def redis_lookup_def redis_expiry_def panicIf_def
  lib_def time_Sub_def json_Marshal_def year_in_range_def set_ttl_ms_def usePrecise_def
  go_quo_def go_rem_def mstime_def

lemma memT1T2_eq:
  "memT1T2 = \<lparr>data = [(''T1'', tokenT1), (''T2'', tokenT2)]\<rparr>"
  by (simp add: memT1T2_def TokenMemStore_Insert_def sample_defs)

lemma mongoT1T2_eq:
  "mongoT1T2 = \<lparr>documents = [tokenT1, tokenT2], mgo_faults = []\<rparr>"
  by (simp add: mongoT1T2_def tokenMongo_Insert_def mgo_Dial_def mgo_Insert_def mgo_step_def
      bson_doc_def bson_time_def sample_defs)

lemma redisT1T2_eq:
  "redisT1T2 =
     \<lparr>keyspace =
        [(''token:id:T1'', JSON tokenT1, Some 3600000),
         (''token:consumer:C1'', Members [''T1'', ''T2''], None),
         (''token:id:T2'', JSON tokenT2, Some 3600000)],
      redis_faults = []\<rparr>"
  by (simp add: redisT1T2_def redis_eval_defs sample_defs)

subsection \<open>What a successful insert leaves in the store\<close>

lemma TokenMemStore_Insert_stored:
  "TokenMemStore_Insert now token ts = (None, ts') \<Longrightarrow>
     go_map_index (data ts') (ID token) = Some (token\<lparr>CreatedAt := now\<rparr>)"
  by (auto simp: TokenMemStore_Insert_def go_map_index_assign split: option.splits)

lemma tokenMongo_Insert_stored:
  "tokenMongo_Insert now token db = (None, db') \<Longrightarrow>
     find (\<lambda>d. ID d = ID token) (documents db') = Some (bson_doc (token\<lparr>CreatedAt := now\<rparr>))"
  by (auto simp: tokenMongo_Insert_def mgo_Dial_def mgo_Insert_def mgo_step_def bson_doc_def
        find_append_last Let_def
      split: option.splits list.splits if_splits prod.splits)

lemma redis_Set_stored:
  "redis_Set now key val expiration r = (None, r') \<Longrightarrow>
     go_map_index (keyspace r') key =
       Some (JSON val, map_option (\<lambda>ttl. mstime now + ttl) (set_ttl_ms expiration)) \<and>
     (\<forall>ttl. set_ttl_ms expiration = Some ttl \<longrightarrow> 0 < ttl)"
  by (auto simp: redis_Set_def redis_step_def go_map_index_assign
      split: option.splits list.splits if_splits prod.splits)

lemma redis_SAdd_other_key:
  "redis_SAdd now key member r = (None, r') \<Longrightarrow> k \<noteq> key \<Longrightarrow>
     go_map_index (keyspace r') k = go_map_index (keyspace r) k"
  by (auto simp: redis_SAdd_def redis_step_def go_map_index_assign
      split: option.splits list.splits if_splits prod.splits rvalue.splits)

lemma tokenRedis_Insert_steps:
  assumes "tokenRedis_Insert now token r = (Returns None, r')"
  obtains r1 r2 where
    "redis_Set now (''token:id:'' @ ID token) (token\<lparr>CreatedAt := now\<rparr>)
        (time_Sub (Expiration token) now) r1 = (None, r2)"
    "redis_SAdd now (''token:consumer:'' @ ConsumerID token) (ID token) r2 = (None, r')"
  using assms
  by (auto simp: tokenRedis_Insert_def panicIf_def lib_def Let_def json_Marshal_def
      split: option.splits if_splits prod.splits)

lemma tokenRedis_Insert_stored:
  assumes "tokenRedis_Insert now token r = (Returns None, r')"
  shows "go_map_index (keyspace r') (''token:id:'' @ ID token) =
       Some (JSON (token\<lparr>CreatedAt := now\<rparr>),
             map_option (\<lambda>ttl. mstime now + ttl) (set_ttl_ms (time_Sub (Expiration token) now)))"
    and "set_ttl_ms (time_Sub (Expiration token) now) = Some ttl \<Longrightarrow> 0 < ttl"
proof -
  from assms obtain r1 r2 where
    st: "redis_Set now (''token:id:'' @ ID token) (token\<lparr>CreatedAt := now\<rparr>)
        (time_Sub (Expiration token) now) r1 = (None, r2)" and
    sa: "redis_SAdd now (''token:consumer:'' @ ConsumerID token) (ID token) r2 = (None, r')"
    by (rule tokenRedis_Insert_steps)
  from redis_SAdd_other_key [OF sa, of "''token:id:'' @ ID token"] redis_Set_stored [OF st]
  show "go_map_index (keyspace r') (''token:id:'' @ ID token) =
       Some (JSON (token\<lparr>CreatedAt := now\<rparr>),
             map_option (\<lambda>ttl. mstime now + ttl) (set_ttl_ms (time_Sub (Expiration token) now)))"
    by simp
  from redis_Set_stored [OF st]
  show "set_ttl_ms (time_Sub (Expiration token) now) = Some ttl \<Longrightarrow> 0 < ttl" by simp
qed

text \<open>
  The record that a successful insert wrote is present at its own instant, and at every
  instant whose millisecond is not past the millisecond of the insert plus the
  time-to-live sent (or at any instant when none was sent).
\<close>

lemma tokenRedis_Insert_present:
  assumes "tokenRedis_Insert now token r = (Returns None, r')"
    and "\<And>ttl. set_ttl_ms (time_Sub (Expiration token) now) = Some ttl \<Longrightarrow>
       mstime later \<le> mstime now + ttl"
  shows "redis_lookup later r' (''token:id:'' @ ID token) = Some (JSON (token\<lparr>CreatedAt := now\<rparr>))"
proof (cases "set_ttl_ms (time_Sub (Expiration token) now)")
  case None
  with tokenRedis_Insert_stored(1) [OF assms(1)] show ?thesis
    by (simp add: redis_lookup_def)
next
  case (Some ttl)
  with tokenRedis_Insert_stored(1) [OF assms(1)] assms(2) [OF Some] show ?thesis
    by (simp add: redis_lookup_def)
qed

lemma tokenRedis_Insert_present_now:
  assumes "tokenRedis_Insert now token r = (Returns None, r')"
  shows "redis_lookup now r' (''token:id:'' @ ID token) = Some (JSON (token\<lparr>CreatedAt := now\<rparr>))"
proof (rule tokenRedis_Insert_present [OF assms])
  fix ttl assume "set_ttl_ms (time_Sub (Expiration token) now) = Some ttl"
  from tokenRedis_Insert_stored(2) [OF assms this] show "mstime now \<le> mstime now + ttl" by simp
qed

subsection \<open>The in-process map stays keyed by token id\<close>

lemma keyed_by_ID_D: "keyed_by_ID m \<Longrightarrow> (k, t) \<in> set m \<Longrightarrow> k = ID t"
  by (induction m) (auto simp: keyed_by_ID_def)

lemma keyed_by_ID_delete: "keyed_by_ID m \<Longrightarrow> keyed_by_ID (go_map_delete k m)"
  by (induction m) (auto simp: keyed_by_ID_def)

lemma keyed_by_ID_assign: "keyed_by_ID m \<Longrightarrow> keyed_by_ID (go_map_assign (ID t) t m)"
  by (induction m) (auto simp: keyed_by_ID_def)

lemma keyed_by_ID_loop:
  "keyed_by_ID m \<Longrightarrow> keyed_by_ID (TokenMemStore_DeleteByConsumerID_loop c snap m)"
  by (induction c snap m rule: TokenMemStore_DeleteByConsumerID_loop.induct)
    (simp_all add: keyed_by_ID_delete)

lemma keyed_by_ID_new: "keyed_by_ID (data newTokenMemStore)"
  by (simp add: keyed_by_ID_def newTokenMemStore_def)

lemma keyed_by_ID_Insert:
  "keyed_by_ID (data ts) \<Longrightarrow> keyed_by_ID (data (snd (TokenMemStore_Insert now token ts)))"
  using keyed_by_ID_assign [of "data ts" "token\<lparr>CreatedAt := now\<rparr>"]
  by (simp add: TokenMemStore_Insert_def split: option.splits)

lemma keyed_by_ID_Update:
  "keyed_by_ID (data ts) \<Longrightarrow> keyed_by_ID (data (snd (TokenMemStore_Update token ts)))"
  by (simp add: TokenMemStore_Update_def keyed_by_ID_assign split: option.splits)

lemma keyed_by_ID_Delete:
  "keyed_by_ID (data ts) \<Longrightarrow> keyed_by_ID (data (snd (TokenMemStore_Delete key ts)))"
  by (simp add: TokenMemStore_Delete_def keyed_by_ID_delete)

lemma keyed_by_ID_DeleteByConsumerID:
  "keyed_by_ID (data ts) \<Longrightarrow> keyed_by_ID (data (snd (TokenMemStore_DeleteByConsumerID c ts)))"
  by (simp add: TokenMemStore_DeleteByConsumerID_def keyed_by_ID_loop)

section \<open>The token entity: validity and renewal\<close>

text \<open>
  C2, as the spec states it, at the boundary: a token whose \<^verbatim>\<open>expiresAt\<close> equals the
  current time is reported invalid. The code reports it valid: \<^verbatim>\<open>After\<close> is strict.
\<close>

theorem isValid_at_expiry:
  "isValid 100 \<lparr>ID = ''T1'', Source = [], ConsumerID = ''C1'', IPAddress = [], ExpiresIn = 0,
      Expiration = 100, CreatedAt = 0\<rparr> = True"
  by (simp add: isValid_def)

text \<open>
  C2, amended: \<^verbatim>\<open>isValid()\<close> returns false exactly when the current time is strictly
  later than \<^verbatim>\<open>expiresAt\<close>; at \<^verbatim>\<open>expiresAt\<close> itself and at every earlier time it
  returns true.
\<close>

theorem isValid_iff: "isValid now t \<longleftrightarrow> now \<le> Expiration t"
  by (simp add: isValid_def not_less)

text \<open>
  C7, as the spec states it, fails under its own precondition: a token created at
  instant 0 and renewed at instant 10 is renewed again with the clock at 5, which is not
  before the token's creation, and its \<^verbatim>\<open>expiresAt\<close> decreases.
\<close>

theorem renew_after_clock_step_back:
  "(0::int) \<le> 1 \<and>
   CreatedAt (renew 10 1 (newToken 0 1 ''T1'' ''C1'')) \<le> 5 \<and>
   Expiration (renew 5 1 (renew 10 1 (newToken 0 1 ''T1'' ''C1'')))
     < Expiration (renew 10 1 (newToken 0 1 ''T1'' ''C1''))"
  by (simp add: renew_def newToken_def token_timeout_def)

text \<open>
  C7, amended: \<^verbatim>\<open>renew()\<close> does not decrease \<^verbatim>\<open>expiresAt\<close> when the clock reading at
  the call is not earlier than the reading at which \<^verbatim>\<open>expiresAt\<close> was last set, by
  \<^verbatim>\<open>newToken\<close> or by an earlier \<^verbatim>\<open>renew()\<close>, under the same configured timeout
  (whatever its sign).
\<close>

theorem renew_monotone:
  "t0 \<le> t1 \<Longrightarrow>
     Expiration (newToken t0 Timeout uuid consumerID)
       \<le> Expiration (renew t1 Timeout (newToken t0 Timeout uuid consumerID)) \<and>
     Expiration (renew t0 Timeout tok) \<le> Expiration (renew t1 Timeout (renew t0 Timeout tok))"
  by (simp add: renew_def newToken_def)

theorem renew_monotone_witness:
  "(0::int) \<le> 5 \<and>
     Expiration (newToken 0 60 ''T1'' ''C1'')
       \<le> Expiration (renew 5 60 (newToken 0 60 ''T1'' ''C1'')) \<and>
     Expiration (renew 0 60 (newToken 0 60 ''T1'' ''C1''))
       \<le> Expiration (renew 5 60 (renew 0 60 (newToken 0 60 ''T1'' ''C1'')))"
  using renew_monotone [of 0 5 60 "''T1''" "''C1''" "newToken 0 60 ''T1'' ''C1''"] by simp

section \<open>Insert\<close>

text \<open>
  C1, as the spec states it, fails on the key-value backend: the primary record is
  written with a time-to-live of \<^verbatim>\<open>expiresAt - now\<close>, so once that has elapsed the key is
  gone and a second insert under the same id goes through. Here \<^verbatim>\<open>T1\<close> is inserted at
  instant 0 with 60 minutes to live, and a token of the same id is inserted 61 minutes
  later.
\<close>

theorem Insert_after_expiry:
  "ID (newToken 3660000000000 60 ''T1'' ''C1'') = ID tokenT1 \<and>
   fst (tokenRedis_Insert 0 tokenT1 emptyRedis) = Returns None \<and>
   fst (tokenRedis_Insert 3660000000000 (newToken 3660000000000 60 ''T1'' ''C1'')
          (snd (tokenRedis_Insert 0 tokenT1 emptyRedis))) = Returns None"
  by (simp add: redis_eval_defs sample_defs)

text \<open>
  C1, amended: for tokens \<open>t1\<close> and \<open>t2\<close> of the same id, once \<^verbatim>\<open>Insert(t1)\<close> has
  succeeded, \<^verbatim>\<open>Insert(t2)\<close> returns the duplicate-key \<^verbatim>\<open>AppError\<close> and leaves the store
  as it was: on the in-process backend always, on the document store when the store
  answers, and on the key-value backend when the store answers and the primary key of
  \<open>t1\<close> is still present when \<open>t2\<close> is inserted, that is, has not been reclaimed by its
  time-to-live.
\<close>

theorem Insert_duplicate:
  "ID t2 = ID t1 \<Longrightarrow>
   (TokenMemStore_Insert now1 t1 ts = (None, ts') \<longrightarrow>
      TokenMemStore_Insert now2 t2 ts' =
        (Some (AppError ''invalid_input'' ''The token key already exits.''), ts')) \<and>
   (tokenMongo_Insert now1 t1 db = (None, db') \<and> mgo_faults db' = [] \<longrightarrow>
      tokenMongo_Insert now2 t2 db' =
        (Some (AppError ''invalid_input'' ''The token key already exits''), db')) \<and>
   (tokenRedis_Insert now1 t1 r = (Returns None, r') \<and> redis_faults r' = [] \<and>
      redis_lookup now2 r' (''token:id:'' @ ID t1) \<noteq> None \<longrightarrow>
      tokenRedis_Insert now2 t2 r' =
        (Returns (Some (AppError ''invalid_input'' ''The token key already exits'')), r'))"
proof (intro conjI impI)
  assume eq: "ID t2 = ID t1"
  { assume "TokenMemStore_Insert now1 t1 ts = (None, ts')"
    from TokenMemStore_Insert_stored [OF this] eq
    show "TokenMemStore_Insert now2 t2 ts' =
        (Some (AppError ''invalid_input'' ''The token key already exits.''), ts')"
      by (simp add: TokenMemStore_Insert_def) }
  { assume a: "tokenMongo_Insert now1 t1 db = (None, db') \<and> mgo_faults db' = []"
    from tokenMongo_Insert_stored [of now1 t1 db db'] a eq
    show "tokenMongo_Insert now2 t2 db' =
        (Some (AppError ''invalid_input'' ''The token key already exits''), db')"
      by (simp add: tokenMongo_Insert_def mgo_Dial_def mgo_Insert_def mgo_step_nofault) }
  { assume a: "tokenRedis_Insert now1 t1 r = (Returns None, r') \<and> redis_faults r' = [] \<and>
      redis_lookup now2 r' (''token:id:'' @ ID t1) \<noteq> None"
    with eq
    show "tokenRedis_Insert now2 t2 r' =
        (Returns (Some (AppError ''invalid_input'' ''The token key already exits'')), r')"
      by (auto simp: tokenRedis_Insert_def redis_Exists_def redis_step_nofault
            panicIf_def lib_def) }
qed

theorem Insert_duplicate_witness:
  "ID (renew 5 60 tokenT1) = ID tokenT1 \<and>
   TokenMemStore_Insert 0 tokenT1 newTokenMemStore =
     (None, snd (TokenMemStore_Insert 0 tokenT1 newTokenMemStore)) \<and>
   TokenMemStore_Insert 5 (renew 5 60 tokenT1) (snd (TokenMemStore_Insert 0 tokenT1 newTokenMemStore)) =
     (Some (AppError ''invalid_input'' ''The token key already exits.''),
      snd (TokenMemStore_Insert 0 tokenT1 newTokenMemStore)) \<and>
   tokenMongo_Insert 0 tokenT1 emptyMongoDB = (None, snd (tokenMongo_Insert 0 tokenT1 emptyMongoDB)) \<and>
   mgo_faults (snd (tokenMongo_Insert 0 tokenT1 emptyMongoDB)) = [] \<and>
   tokenMongo_Insert 5 (renew 5 60 tokenT1) (snd (tokenMongo_Insert 0 tokenT1 emptyMongoDB)) =
     (Some (AppError ''invalid_input'' ''The token key already exits''),
      snd (tokenMongo_Insert 0 tokenT1 emptyMongoDB)) \<and>
   tokenRedis_Insert 0 tokenT1 emptyRedis = (Returns None, snd (tokenRedis_Insert 0 tokenT1 emptyRedis)) \<and>
   redis_faults (snd (tokenRedis_Insert 0 tokenT1 emptyRedis)) = [] \<and>
   redis_lookup 5 (snd (tokenRedis_Insert 0 tokenT1 emptyRedis)) (''token:id:'' @ ID tokenT1) \<noteq> None \<and>
   tokenRedis_Insert 5 (renew 5 60 tokenT1) (snd (tokenRedis_Insert 0 tokenT1 emptyRedis)) =
     (Returns (Some (AppError ''invalid_input'' ''The token key already exits'')),
      snd (tokenRedis_Insert 0 tokenT1 emptyRedis))"
  using Insert_duplicate [of "renew 5 60 tokenT1" tokenT1 0 newTokenMemStore
      "snd (TokenMemStore_Insert 0 tokenT1 newTokenMemStore)" 5 emptyMongoDB
      "snd (tokenMongo_Insert 0 tokenT1 emptyMongoDB)"
      emptyRedis "snd (tokenRedis_Insert 0 tokenT1 emptyRedis)"]
  by (simp add: TokenMemStore_Insert_def tokenMongo_Insert_def mgo_Dial_def mgo_Insert_def
      mgo_step_def bson_doc_def bson_time_def redis_eval_defs renew_def sample_defs)

text \<open>
  C9, as the spec states it, fails on the document store: the driver keeps an instant in
  whole milliseconds, so with the clock at 1234567 ns the stored \<^verbatim>\<open>CreatedAt\<close> is
  1000000 ns, not the clock reading.
\<close>

theorem tokenMongo_Insert_truncates_CreatedAt:
  "fst (tokenMongo_Insert 1234567 tokenT1 emptyMongoDB) = None \<and>
   map_option CreatedAt
     (find (\<lambda>d. ID d = ''T1'') (documents (snd (tokenMongo_Insert 1234567 tokenT1 emptyMongoDB))))
     = Some 1000000 \<and>
   map_option CreatedAt
     (find (\<lambda>d. ID d = ''T1'') (documents (snd (tokenMongo_Insert 1234567 tokenT1 emptyMongoDB))))
     \<noteq> Some 1234567"
  by (simp add: tokenMongo_Insert_def mgo_Dial_def mgo_Insert_def mgo_step_def bson_doc_def
      bson_time_def sample_defs)

text \<open>
  C9, amended: on each backend a successful \<^verbatim>\<open>Insert\<close> stores the token with a
  \<^verbatim>\<open>CreatedAt\<close> fixed by the clock reading that \<^verbatim>\<open>Insert\<close> takes, whatever the caller
  had put in that field: the reading itself on the in-process and key-value backends,
  the reading rounded down to the millisecond on the document store (which also keeps
  \<^verbatim>\<open>Expiration\<close> to the millisecond and drops \<^verbatim>\<open>ExpiresIn\<close>).
\<close>

theorem Insert_stamps_CreatedAt:
  "(TokenMemStore_Insert now token ts = (None, ts') \<longrightarrow>
      go_map_index (data ts') (ID token) = Some (token\<lparr>CreatedAt := now\<rparr>)) \<and>
   (tokenMongo_Insert now token db = (None, db') \<longrightarrow>
      find (\<lambda>d. ID d = ID token) (documents db') = Some (bson_doc (token\<lparr>CreatedAt := now\<rparr>)) \<and>
      map_option CreatedAt (find (\<lambda>d. ID d = ID token) (documents db'))
        = Some (now div 1000000 * 1000000)) \<and>
   (tokenRedis_Insert now token r = (Returns None, r') \<longrightarrow>
      redis_lookup now r' (''token:id:'' @ ID token) = Some (JSON (token\<lparr>CreatedAt := now\<rparr>)))"
proof (intro conjI impI)
  assume "TokenMemStore_Insert now token ts = (None, ts')"
  then show "go_map_index (data ts') (ID token) = Some (token\<lparr>CreatedAt := now\<rparr>)"
    by (rule TokenMemStore_Insert_stored)
next
  assume "tokenMongo_Insert now token db = (None, db')"
  then show "find (\<lambda>d. ID d = ID token) (documents db') = Some (bson_doc (token\<lparr>CreatedAt := now\<rparr>))"
    by (rule tokenMongo_Insert_stored)
next
  assume "tokenMongo_Insert now token db = (None, db')"
  from tokenMongo_Insert_stored [OF this]
  show "map_option CreatedAt (find (\<lambda>d. ID d = ID token) (documents db'))
        = Some (now div 1000000 * 1000000)"
    by (simp add: bson_doc_def bson_time_def)
next
  assume "tokenRedis_Insert now token r = (Returns None, r')"
  then show "redis_lookup now r' (''token:id:'' @ ID token) = Some (JSON (token\<lparr>CreatedAt := now\<rparr>))"
    by (rule tokenRedis_Insert_present_now)
qed

theorem Insert_stamps_CreatedAt_witness:
  "TokenMemStore_Insert 1234567 (tokenT1\<lparr>CreatedAt := 999\<rparr>) newTokenMemStore =
     (None, snd (TokenMemStore_Insert 1234567 (tokenT1\<lparr>CreatedAt := 999\<rparr>) newTokenMemStore)) \<and>
   map_option CreatedAt (go_map_index
      (data (snd (TokenMemStore_Insert 1234567 (tokenT1\<lparr>CreatedAt := 999\<rparr>) newTokenMemStore))) ''T1'')
     = Some 1234567 \<and>
   tokenMongo_Insert 1234567 (tokenT1\<lparr>CreatedAt := 999\<rparr>) emptyMongoDB =
     (None, snd (tokenMongo_Insert 1234567 (tokenT1\<lparr>CreatedAt := 999\<rparr>) emptyMongoDB)) \<and>
   map_option CreatedAt (find (\<lambda>d. ID d = ''T1'')
      (documents (snd (tokenMongo_Insert 1234567 (tokenT1\<lparr>CreatedAt := 999\<rparr>) emptyMongoDB))))
     = Some 1000000 \<and>
   tokenRedis_Insert 1234567 (tokenT1\<lparr>CreatedAt := 999\<rparr>) emptyRedis =
     (Returns None, snd (tokenRedis_Insert 1234567 (tokenT1\<lparr>CreatedAt := 999\<rparr>) emptyRedis)) \<and>
   redis_lookup 1234567 (snd (tokenRedis_Insert 1234567 (tokenT1\<lparr>CreatedAt := 999\<rparr>) emptyRedis))
      ''token:id:T1'' = Some (JSON (tokenT1\<lparr>CreatedAt := 1234567\<rparr>))"
  using Insert_stamps_CreatedAt [of 1234567 "tokenT1\<lparr>CreatedAt := 999\<rparr>" newTokenMemStore
      "snd (TokenMemStore_Insert 1234567 (tokenT1\<lparr>CreatedAt := 999\<rparr>) newTokenMemStore)"
      emptyMongoDB "snd (tokenMongo_Insert 1234567 (tokenT1\<lparr>CreatedAt := 999\<rparr>) emptyMongoDB)"
      emptyRedis "snd (tokenRedis_Insert 1234567 (tokenT1\<lparr>CreatedAt := 999\<rparr>) emptyRedis)"]
  by (simp add: TokenMemStore_Insert_def tokenMongo_Insert_def mgo_Dial_def mgo_Insert_def
      mgo_step_def bson_doc_def bson_time_def redis_eval_defs sample_defs)

section \<open>Absent ids\<close>

text \<open>
  C5: for an id that is absent from the store (and, for the two remote backends, a store
  that answers), \<^verbatim>\<open>Get\<close> returns no token and no error on each of the three backends,
  and leaves the store as it was.
\<close>

theorem Get_absent:
  "(go_map_index (data ts) key = None \<longrightarrow> TokenMemStore_Get key ts = (None, None)) \<and>
   (mgo_faults db = [] \<and> find (\<lambda>d. ID d = key) (documents db) = None \<longrightarrow>
      tokenMongo_Get key db = ((None, None), db)) \<and>
   (redis_faults r = [] \<and> redis_lookup now r (''token:id:'' @ key) = None \<longrightarrow>
      tokenRedis_Get now key r = (Returns (None, None), r))"
  by (simp add: TokenMemStore_Get_def tokenMongo_Get_def mgo_Dial_def mgo_One_def
       mgo_step_nofault tokenRedis_Get_def redis_Get_def redis_step_nofault)

theorem Get_absent_witness:
  "go_map_index (data memT1T2) ''nonexistent-id'' = None \<and>
   TokenMemStore_Get ''nonexistent-id'' memT1T2 = (None, None) \<and>
   mgo_faults mongoT1T2 = [] \<and>
   find (\<lambda>d. ID d = ''nonexistent-id'') (documents mongoT1T2) = None \<and>
   tokenMongo_Get ''nonexistent-id'' mongoT1T2 = ((None, None), mongoT1T2) \<and>
   redis_faults redisT1T2 = [] \<and>
   redis_lookup 5 redisT1T2 (''token:id:'' @ ''nonexistent-id'') = None \<and>
   tokenRedis_Get 5 ''nonexistent-id'' redisT1T2 = (Returns (None, None), redisT1T2)"
  using Get_absent [of memT1T2 "''nonexistent-id''" mongoT1T2 redisT1T2 5]
  by (simp add: memT1T2_eq mongoT1T2_eq redisT1T2_eq sample_defs redis_lookup_def)

text \<open>
  Deleting an absent id on the in-process store and on the key-value store: no error,
  and nothing that a reader can see changes.
\<close>

lemma TokenMemStore_Delete_absent:
  "go_map_index (data ts) key = None \<Longrightarrow> TokenMemStore_Delete key ts = (None, ts)"
  by (simp add: TokenMemStore_Delete_def go_map_delete_absent)

lemma tokenRedis_Delete_absent:
  "redis_faults r = [] \<Longrightarrow> redis_lookup now r (''token:id:'' @ i) = None \<Longrightarrow>
     fst (tokenRedis_Delete now i r) = Returns None \<and>
     redis_lookup now (snd (tokenRedis_Delete now i r)) k = redis_lookup now r k"
  by (simp add: tokenRedis_Delete_def redis_Del_def redis_step_nofault panicIf_def lib_def
      redis_lookup_def go_map_index_delete)

text \<open>
  C4 on the document store: \<^verbatim>\<open>Delete\<close> of an id that the collection does not hold
  (\<^verbatim>\<open>Get\<close> finds nothing under it) returns the driver's \<^verbatim>\<open>not found\<close> error; the
  collection is unchanged. \<^verbatim>\<open>Remove\<close> reports a missing document, and \<^verbatim>\<open>Delete\<close>
  hands that error on, where \<^verbatim>\<open>Get\<close> turns the same error into an empty result.
\<close>

theorem tokenMongo_Delete_absent_is_error:
  "fst (tokenMongo_Get ''nonexistent-id'' mongoT1T2) = (None, None) \<and>
   tokenMongo_Delete ''nonexistent-id'' mongoT1T2 = (Some (LibError ''not found''), mongoT1T2)"
  by (simp add: mongoT1T2_eq tokenMongo_Delete_def tokenMongo_Get_def mgo_One_def
      mgo_Dial_def mgo_Remove_def mgo_step_def sample_defs)

section \<open>Update\<close>

text \<open>
  C6, as the spec states it, makes the in-process backend the only one that rejects an
  update of a missing id. The document store rejects it too: \<^verbatim>\<open>Collection.Update\<close>
  reports \<^verbatim>\<open>not found\<close> when no document matches, and \<^verbatim>\<open>tokenMongo.Update\<close> returns
  that error. Here the collection holds \<^verbatim>\<open>T1\<close> and \<^verbatim>\<open>T2\<close> and the update is for \<^verbatim>\<open>T3\<close>.
\<close>

theorem tokenMongo_Update_rejects_missing_id:
  "fst (tokenMongo_Get ''T3'' mongoT1T2) = (None, None) \<and>
   tokenMongo_Update (newToken 0 60 ''T3'' ''C1'') mongoT1T2 =
     (Some (LibError ''not found''), mongoT1T2)"
  by (simp add: mongoT1T2_eq tokenMongo_Update_def tokenMongo_Get_def mgo_One_def mgo_Dial_def
      mgo_Update_def mgo_step_def sample_defs)

text \<open>
  C6, amended: on the in-process backend, \<^verbatim>\<open>Update\<close> for an id that the map does not
  hold returns the not-found \<^verbatim>\<open>AppError\<close> and leaves the map unchanged; for an id that
  the map holds it returns no error and the map then holds the given token under that
  id, every other id being as before. The in-process backend is not alone in rejecting
  a missing id: on the document store (when it answers) \<^verbatim>\<open>Update\<close> for an id that the
  collection does not hold returns the driver's \<^verbatim>\<open>not found\<close> error and leaves the
  collection unchanged. Only the key-value backend accepts it: when the store answers
  and the token's instants can be written as JSON, \<^verbatim>\<open>Update\<close> returns no error and the
  record is stored, whether or not the id was there.
\<close>

theorem Update_missing_id:
  "(go_map_index (data ts) (ID token) = None \<longrightarrow>
      TokenMemStore_Update token ts =
        (Some (AppError ''invalid_input'' ''The token was not found.''), ts)) \<and>
   (go_map_index (data ts) (ID token) \<noteq> None \<longrightarrow>
      fst (TokenMemStore_Update token ts) = None \<and>
      TokenMemStore_Get key (snd (TokenMemStore_Update token ts)) =
        (if key = ID token then Some token else go_map_index (data ts) key, None)) \<and>
   (mgo_faults db = [] \<and> find (\<lambda>d. ID d = ID token) (documents db) = None \<longrightarrow>
      tokenMongo_Update token db = (Some (LibError ''not found''), db)) \<and>
   (redis_faults r = [] \<and> year_in_range (Expiration token) \<and> year_in_range (CreatedAt token) \<longrightarrow>
      fst (tokenRedis_Update now token r) = Returns None \<and>
      redis_lookup now (snd (tokenRedis_Update now token r)) (''token:id:'' @ ID token) =
        Some (JSON token))"
proof (intro conjI impI)
  assume "go_map_index (data ts) (ID token) = None"
  then show "TokenMemStore_Update token ts =
        (Some (AppError ''invalid_input'' ''The token was not found.''), ts)"
    by (simp add: TokenMemStore_Update_def)
next
  assume "go_map_index (data ts) (ID token) \<noteq> None"
  then show "fst (TokenMemStore_Update token ts) = None"
    by (auto simp: TokenMemStore_Update_def)
next
  assume "go_map_index (data ts) (ID token) \<noteq> None"
  then show "TokenMemStore_Get key (snd (TokenMemStore_Update token ts)) =
        (if key = ID token then Some token else go_map_index (data ts) key, None)"
    by (auto simp: TokenMemStore_Update_def TokenMemStore_Get_def go_map_index_assign)
next
  assume "mgo_faults db = [] \<and> find (\<lambda>d. ID d = ID token) (documents db) = None"
  then show "tokenMongo_Update token db = (Some (LibError ''not found''), db)"
    by (simp add: tokenMongo_Update_def mgo_Dial_def mgo_Update_def mgo_step_nofault)
next
  assume a: "redis_faults r = [] \<and> year_in_range (Expiration token) \<and> year_in_range (CreatedAt token)"
  then show "fst (tokenRedis_Update now token r) = Returns None"
    by (simp add: tokenRedis_Update_def json_Marshal_def redis_Set_def redis_step_nofault
        set_ttl_ms_def panicIf_def lib_def)
  from a show "redis_lookup now (snd (tokenRedis_Update now token r)) (''token:id:'' @ ID token) =
        Some (JSON token)"
    by (simp add: tokenRedis_Update_def json_Marshal_def redis_Set_def redis_step_nofault
        set_ttl_ms_def panicIf_def lib_def redis_lookup_def go_map_index_assign)
qed

theorem Update_missing_id_witness:
  "go_map_index (data memT1T2) (ID (newToken 0 60 ''T3'' ''C1'')) = None \<and>
   TokenMemStore_Update (newToken 0 60 ''T3'' ''C1'') memT1T2 =
     (Some (AppError ''invalid_input'' ''The token was not found.''), memT1T2) \<and>
   go_map_index (data memT1T2) (ID (renew 5 60 tokenT1)) \<noteq> None \<and>
   fst (TokenMemStore_Update (renew 5 60 tokenT1) memT1T2) = None \<and>
   TokenMemStore_Get ''T1'' (snd (TokenMemStore_Update (renew 5 60 tokenT1) memT1T2))
     = (Some (renew 5 60 tokenT1), None) \<and>
   mgo_faults mongoT1T2 = [] \<and>
   find (\<lambda>d. ID d = ID (newToken 0 60 ''T3'' ''C1'')) (documents mongoT1T2) = None \<and>
   tokenMongo_Update (newToken 0 60 ''T3'' ''C1'') mongoT1T2 =
     (Some (LibError ''not found''), mongoT1T2) \<and>
   redis_faults redisT1T2 = [] \<and>
   year_in_range (Expiration (newToken 0 60 ''T3'' ''C1'')) \<and>
   year_in_range (CreatedAt (newToken 0 60 ''T3'' ''C1'')) \<and>
   redis_lookup 5 redisT1T2 ''token:id:T3'' = None \<and>
   fst (tokenRedis_Update 5 (newToken 0 60 ''T3'' ''C1'') redisT1T2) = Returns None \<and>
   redis_lookup 5 (snd (tokenRedis_Update 5 (newToken 0 60 ''T3'' ''C1'') redisT1T2)) ''token:id:T3'' =
     Some (JSON (newToken 0 60 ''T3'' ''C1''))"
  using Update_missing_id [of memT1T2 "newToken 0 60 ''T3'' ''C1''" "''T3''" mongoT1T2 redisT1T2 5]
    Update_missing_id [of memT1T2 "renew 5 60 tokenT1" "''T1''" mongoT1T2 redisT1T2 5]
  by (simp add: memT1T2_eq mongoT1T2_eq redisT1T2_eq sample_defs renew_def year_in_range_def
      redis_lookup_def)

text \<open>
  C10: on the key-value backend a successful \<^verbatim>\<open>Update\<close> leaves the primary record
  stored with no expiry, whatever expiry the key had before, so the record is there at
  every later instant.
\<close>

theorem tokenRedis_Update_no_ttl:
  "tokenRedis_Update now token r = (Returns None, r') \<Longrightarrow>
     go_map_index (keyspace r') (''token:id:'' @ ID token) = Some (JSON token, None) \<and>
     redis_lookup later r' (''token:id:'' @ ID token) = Some (JSON token)"
  by (auto simp: tokenRedis_Update_def redis_Set_def redis_step_def redis_lookup_def
        panicIf_def lib_def Let_def go_map_index_assign json_Marshal_def set_ttl_ms_def
      split: option.splits list.splits if_splits prod.splits)

theorem tokenRedis_Update_no_ttl_witness:
  "go_map_index (keyspace redisT1T2) ''token:id:T1'' = Some (JSON tokenT1, Some 3600000) \<and>
   tokenRedis_Update 5 (renew 5 60 tokenT1) redisT1T2 =
     (Returns None, snd (tokenRedis_Update 5 (renew 5 60 tokenT1) redisT1T2)) \<and>
   go_map_index (keyspace (snd (tokenRedis_Update 5 (renew 5 60 tokenT1) redisT1T2))) ''token:id:T1'' =
     Some (JSON (renew 5 60 tokenT1), None) \<and>
   redis_lookup 1000000000000000 (snd (tokenRedis_Update 5 (renew 5 60 tokenT1) redisT1T2)) ''token:id:T1'' =
     Some (JSON (renew 5 60 tokenT1))"
  using tokenRedis_Update_no_ttl [of 5 "renew 5 60 tokenT1" redisT1T2
      "snd (tokenRedis_Update 5 (renew 5 60 tokenT1) redisT1T2)" 1000000000000000]
  by (simp add: redisT1T2_eq redis_eval_defs renew_def sample_defs)

section \<open>Cascade delete by owner\<close>

subsection \<open>The in-process store\<close>

text \<open>
  On a map keyed by token id, \<^verbatim>\<open>DeleteByConsumerID\<close> removes every token of the owner:
  \<^verbatim>\<open>GetByConsumerID\<close> finds none afterwards. The loop deletes under \<^verbatim>\<open>token.ID\<close>, not
  under the key it is visiting, which is the same key on such a map.
\<close>

lemma GetByConsumerID_loop_eq:
  "TokenMemStore_GetByConsumerID_loop c m result =
     result @ map snd (filter (\<lambda>e. ConsumerID (snd e) = c) m)"
  by (induction m arbitrary: result) auto

lemma DeleteByConsumerID_loop_clears:
  "keyed_by_ID m \<Longrightarrow>
   (\<And>k t. (k, t) \<in> set m \<Longrightarrow> ConsumerID t = c \<Longrightarrow> (k, t) \<in> set snap) \<Longrightarrow>
   (k', t') \<in> set (TokenMemStore_DeleteByConsumerID_loop c snap m) \<Longrightarrow> ConsumerID t' \<noteq> c"
proof (induction snap arbitrary: m)
  case Nil
  show ?case
  proof
    assume "ConsumerID t' = c"
    with Nil.prems(2) [of k' t'] Nil.prems(3) show False by simp
  qed
next
  case (Cons a snap)
  obtain k token where a: "a = (k, token)" by (cases a)
  show ?case
  proof (cases "go_map_index m k = None")
    case True
    then have step: "TokenMemStore_DeleteByConsumerID_loop c (a # snap) m =
        TokenMemStore_DeleteByConsumerID_loop c snap m"
      by (simp add: a)
    have rest: "(j, t) \<in> set snap" if "(j, t) \<in> set m" "ConsumerID t = c" for j t
    proof -
      from that Cons.prems(2) have "(j, t) \<in> set (a # snap)" by blast
      moreover have "(j, t) \<noteq> a"
      proof
        assume "(j, t) = a"
        with a that(1) have "(k, token) \<in> set m" by simp
        from go_map_index_member [OF this] True show False by simp
      qed
      ultimately show ?thesis by simp
    qed
    from Cons.prems(3) have "(k', t') \<in> set (TokenMemStore_DeleteByConsumerID_loop c snap m)"
      unfolding step .
    from Cons.IH [OF Cons.prems(1) rest this] show ?thesis .
  next
    case False
    show ?thesis
    proof (cases "ConsumerID token = c")
      case True
      let ?m = "go_map_delete (ID token) m"
      have step: "TokenMemStore_DeleteByConsumerID_loop c (a # snap) m =
          TokenMemStore_DeleteByConsumerID_loop c snap ?m"
        by (simp add: a False True)
      have inv: "keyed_by_ID ?m" using Cons.prems(1) by (rule keyed_by_ID_delete)
      have rest: "(j, t) \<in> set snap" if "(j, t) \<in> set ?m" "ConsumerID t = c" for j t
      proof -
        from that(1) have jm: "(j, t) \<in> set m" and ne: "j \<noteq> ID token"
          by (simp_all add: in_go_map_delete)
        from keyed_by_ID_D [OF Cons.prems(1) jm] have "j = ID t" .
        with ne have "t \<noteq> token" by blast
        then have "(j, t) \<noteq> a" by (simp add: a)
        moreover from jm that(2) Cons.prems(2) have "(j, t) \<in> set (a # snap)" by blast
        ultimately show ?thesis by simp
      qed
      from Cons.prems(3) have "(k', t') \<in> set (TokenMemStore_DeleteByConsumerID_loop c snap ?m)"
        unfolding step .
      from Cons.IH [OF inv rest this] show ?thesis .
    next
      case ne: False
      have step: "TokenMemStore_DeleteByConsumerID_loop c (a # snap) m =
          TokenMemStore_DeleteByConsumerID_loop c snap m"
        by (simp add: a False ne)
      have rest: "(j, t) \<in> set snap" if "(j, t) \<in> set m" "ConsumerID t = c" for j t
      proof -
        from that Cons.prems(2) have "(j, t) \<in> set (a # snap)" by blast
        moreover from that(2) ne have "(j, t) \<noteq> a" by (auto simp: a)
        ultimately show ?thesis by simp
      qed
      from Cons.prems(3) have "(k', t') \<in> set (TokenMemStore_DeleteByConsumerID_loop c snap m)"
        unfolding step .
      from Cons.IH [OF Cons.prems(1) rest this] show ?thesis .
    qed
  qed
qed

lemma TokenMemStore_DeleteByConsumerID_complete:
  assumes inv: "keyed_by_ID (data ts)"
  shows "fst (TokenMemStore_DeleteByConsumerID c ts) = None \<and>
     TokenMemStore_GetByConsumerID c (snd (TokenMemStore_DeleteByConsumerID c ts)) = ([], None)"
proof -
  let ?m = "TokenMemStore_DeleteByConsumerID_loop c (data ts) (data ts)"
  have "ConsumerID (snd e) \<noteq> c" if "e \<in> set ?m" for e
    using DeleteByConsumerID_loop_clears [OF inv, of c "data ts" "fst e" "snd e"] that by simp
  then have "filter (\<lambda>e. ConsumerID (snd e) = c) ?m = []"
    unfolding filter_empty_conv by blast
  then show ?thesis
    by (simp add: TokenMemStore_DeleteByConsumerID_def TokenMemStore_GetByConsumerID_def
        GetByConsumerID_loop_eq)
qed

subsection \<open>The key-value store\<close>

text \<open>
  With a store that answers, a \<^verbatim>\<open>DeleteByConsumerID\<close> that returns has deleted the
  owner's index key, so \<^verbatim>\<open>GetByConsumerID\<close> finds no member to fetch.
\<close>

lemma DeleteByConsumerID_loop_nofault:
  "redis_faults r = [] \<Longrightarrow>
     tokenRedis_DeleteByConsumerID_loop now ids r =
       (Returns (), r\<lparr>keyspace := fold (\<lambda>i. go_map_delete (''token:id:'' @ i)) ids (keyspace r)\<rparr>)"
proof (induction ids arbitrary: r)
  case Nil
  then show ?case by simp
next
  case (Cons i ids)
  let ?r1 = "r\<lparr>keyspace := go_map_delete (''token:id:'' @ i) (keyspace r)\<rparr>"
  from Cons.prems have d: "tokenRedis_Delete now i r = (Returns None, ?r1)"
    by (simp add: tokenRedis_Delete_def redis_Del_def redis_step_nofault panicIf_def lib_def)
  from Cons.prems have "redis_faults ?r1 = []" by simp
  from Cons.IH [OF this] d show ?case by (simp add: panicIf_def)
qed

lemma tokenRedis_DeleteByConsumerID_complete:
  assumes "redis_faults r = []"
    and "tokenRedis_DeleteByConsumerID now c r = (Returns None, r')"
  shows "tokenRedis_GetByConsumerID now c r' = (Returns ([], None), r')"
proof -
  have "\<exists>ids. redis_SMembers now (''token:consumer:'' @ c) r = ((ids, None), r)"
  proof (cases "redis_lookup now r (''token:consumer:'' @ c)")
    case None
    with assms(1) show ?thesis by (simp add: redis_SMembers_def redis_step_nofault)
  next
    case (Some v)
    show ?thesis
    proof (cases v)
      case (JSON s)
      with Some assms show ?thesis
        by (simp add: tokenRedis_DeleteByConsumerID_def redis_SMembers_def redis_step_nofault
            panicIf_def lib_def WRONGTYPE_def)
    next
      case (Members ms)
      with Some assms(1) show ?thesis by (simp add: redis_SMembers_def redis_step_nofault)
    qed
  qed
  then obtain ids where sm: "redis_SMembers now (''token:consumer:'' @ c) r = ((ids, None), r)" ..
  from assms sm have "redis_faults r' = [] \<and> go_map_index (keyspace r') (''token:consumer:'' @ c) = None"
    by (simp add: tokenRedis_DeleteByConsumerID_def redis_step_nofault
          DeleteByConsumerID_loop_nofault redis_Del_def panicIf_def lib_def
          go_map_index_delete) (auto simp: go_map_index_delete)
  then show ?thesis
    by (simp add: tokenRedis_GetByConsumerID_def redis_SMembers_def redis_step_nofault
        redis_lookup_def panicIf_def lib_def)
qed

subsection \<open>The document store\<close>

text \<open>
  C3 on the document store: the collection holds the two tokens of owner \<^verbatim>\<open>C1\<close>;
  \<^verbatim>\<open>DeleteByConsumerID\<close> returns no error, yet \<^verbatim>\<open>GetByConsumerID\<close> still returns the
  second token. \<^verbatim>\<open>Remove\<close> deletes one matching document, not all of them.
\<close>

theorem tokenMongo_DeleteByConsumerID_leaves_token:
  "fst (tokenMongo_GetByConsumerID ''C1'' mongoT1T2) = ([tokenT1, tokenT2], None) \<and>
   fst (tokenMongo_DeleteByConsumerID ''C1'' mongoT1T2) = None \<and>
   fst (tokenMongo_GetByConsumerID ''C1'' (snd (tokenMongo_DeleteByConsumerID ''C1'' mongoT1T2)))
     = ([tokenT2], None)"
  by (simp add: mongoT1T2_eq tokenMongo_DeleteByConsumerID_def tokenMongo_GetByConsumerID_def
      mgo_Dial_def mgo_Remove_def mgo_All_def mgo_step_def sample_defs)

subsection \<open>A failing deletion in the key-value cascade\<close>

text \<open>
  \<^verbatim>\<open>Delete\<close> panics on a failing \<^verbatim>\<open>Del\<close>; the loop of \<^verbatim>\<open>DeleteByConsumerID\<close> therefore
  ends at the first member whose deletion fails, with the members before it deleted.
\<close>

lemma tokenRedis_Delete_fault:
  "redis_faults r = Some m # fs \<Longrightarrow>
     tokenRedis_Delete now i r = (Panics (LibError m), r\<lparr>redis_faults := fs\<rparr>)"
  by (simp add: tokenRedis_Delete_def redis_Del_def redis_step_def panicIf_def lib_def)

lemma tokenRedis_Delete_ok:
  "redis_faults r = None # fs \<Longrightarrow>
     tokenRedis_Delete now i r =
       (Returns None, r\<lparr>redis_faults := fs, keyspace := go_map_delete (''token:id:'' @ i) (keyspace r)\<rparr>)"
  by (simp add: tokenRedis_Delete_def redis_Del_def redis_step_def panicIf_def lib_def)

lemma DeleteByConsumerID_loop_aborts:
  "redis_faults r = replicate (length pre) None @ Some m # fs \<Longrightarrow>
     tokenRedis_DeleteByConsumerID_loop now (pre @ x # post) r =
       (Panics (LibError m),
        r\<lparr>redis_faults := fs,
          keyspace := fold (\<lambda>i. go_map_delete (''token:id:'' @ i)) pre (keyspace r)\<rparr>)"
proof (induction pre arbitrary: r)
  case Nil
  then show ?case by (simp add: tokenRedis_Delete_fault)
next
  case (Cons p pre)
  let ?r1 = "r\<lparr>redis_faults := replicate (length pre) None @ Some m # fs,
                keyspace := go_map_delete (''token:id:'' @ p) (keyspace r)\<rparr>"
  from Cons.prems have d: "tokenRedis_Delete now p r = (Returns None, ?r1)"
    by (simp add: tokenRedis_Delete_ok)
  have "redis_faults ?r1 = replicate (length pre) None @ Some m # fs" by simp
  from Cons.IH [OF this] d show ?case by (simp add: panicIf_def)
qed

text \<open>
  C8, as the spec states it, fails: with the index of \<^verbatim>\<open>C1\<close> listing \<^verbatim>\<open>T1\<close> and \<^verbatim>\<open>T2\<close>
  and the deletion of \<^verbatim>\<open>T1\<close> failing, \<^verbatim>\<open>DeleteByConsumerID\<close> panics at once. No later
  call would have failed, but none is made: the record of \<^verbatim>\<open>T2\<close> and the index key are
  still there.
\<close>

theorem tokenRedis_DeleteByConsumerID_stops_at_failure:
  "fst (tokenRedis_DeleteByConsumerID 5 ''C1''
          (redisT1T2\<lparr>redis_faults := [None, Some ''i/o timeout'']\<rparr>)) =
       Panics (LibError ''i/o timeout'') \<and>
   redis_faults (snd (tokenRedis_DeleteByConsumerID 5 ''C1''
          (redisT1T2\<lparr>redis_faults := [None, Some ''i/o timeout'']\<rparr>))) = [] \<and>
   redis_lookup 5 (snd (tokenRedis_DeleteByConsumerID 5 ''C1''
          (redisT1T2\<lparr>redis_faults := [None, Some ''i/o timeout'']\<rparr>))) ''token:id:T2'' =
       Some (JSON tokenT2) \<and>
   redis_lookup 5 (snd (tokenRedis_DeleteByConsumerID 5 ''C1''
          (redisT1T2\<lparr>redis_faults := [None, Some ''i/o timeout'']\<rparr>))) ''token:consumer:C1'' =
       Some (Members [''T1'', ''T2''])"
  by (simp add: redisT1T2_eq tokenRedis_DeleteByConsumerID_def redis_SMembers_def
      tokenRedis_Delete_def redis_Del_def redis_step_def redis_lookup_def mstime_def
      panicIf_def lib_def sample_defs)

text \<open>
  C8, amended: on the key-value backend, when the deletion of a member's primary record
  fails during \<^verbatim>\<open>DeleteByConsumerID\<close>, the operation stops there with a panic that
  carries the store's error, and returns no error value. The members listed before the
  failing one have been deleted; the failing member, the members after it and the
  owner's index key are as they were.
\<close>

theorem tokenRedis_DeleteByConsumerID_aborts:
  assumes idx: "redis_lookup now r (''token:consumer:'' @ consumerID) = Some (Members (pre @ x # post))"
    and script: "redis_faults r = None # replicate (length pre) None @ Some m # fs"
  shows "fst (tokenRedis_DeleteByConsumerID now consumerID r) = Panics (LibError m) \<and>
     redis_lookup now (snd (tokenRedis_DeleteByConsumerID now consumerID r))
       (''token:consumer:'' @ consumerID) = Some (Members (pre @ x # post)) \<and>
     redis_lookup now (snd (tokenRedis_DeleteByConsumerID now consumerID r)) (''token:id:'' @ i) =
       (if i \<in> set pre then None else redis_lookup now r (''token:id:'' @ i))"
proof -
  let ?r1 = "r\<lparr>redis_faults := replicate (length pre) None @ Some m # fs\<rparr>"
  let ?r2 = "?r1\<lparr>redis_faults := fs,
          keyspace := fold (\<lambda>i. go_map_delete (''token:id:'' @ i)) pre (keyspace ?r1)\<rparr>"
  from idx script have sm: "redis_SMembers now (''token:consumer:'' @ consumerID) r =
      ((pre @ x # post, None), ?r1)"
    by (simp add: redis_SMembers_def redis_step_def)
  have "redis_faults ?r1 = replicate (length pre) None @ Some m # fs" by simp
  from DeleteByConsumerID_loop_aborts [OF this]
  have lp: "tokenRedis_DeleteByConsumerID_loop now (pre @ x # post) ?r1 = (Panics (LibError m), ?r2)" .
  from sm lp have res: "tokenRedis_DeleteByConsumerID now consumerID r = (Panics (LibError m), ?r2)"
    by (simp add: tokenRedis_DeleteByConsumerID_def panicIf_def lib_def)
  have k: "go_map_index (keyspace ?r2) k =
      (if k \<in> (\<lambda>i. ''token:id:'' @ i) ` set pre then None else go_map_index (keyspace r) k)" for k
    using go_map_index_fold_delete [of "\<lambda>i. ''token:id:'' @ i" pre "keyspace r" k] by simp
  have "redis_lookup now ?r2 (''token:consumer:'' @ consumerID) = Some (Members (pre @ x # post))"
    using idx unfolding redis_lookup_def k by (simp add: image_iff)
  moreover have "redis_lookup now ?r2 (''token:id:'' @ i) =
       (if i \<in> set pre then None else redis_lookup now r (''token:id:'' @ i))"
    unfolding redis_lookup_def k by (simp add: image_iff)
  ultimately show ?thesis using res by simp
qed

theorem tokenRedis_DeleteByConsumerID_aborts_witness:
  "redis_lookup 5 (redisT1T2\<lparr>redis_faults := [None, None, Some ''i/o timeout'']\<rparr>)
       (''token:consumer:'' @ ''C1'') = Some (Members ([''T1''] @ ''T2'' # [])) \<and>
   redis_faults (redisT1T2\<lparr>redis_faults := [None, None, Some ''i/o timeout'']\<rparr>) =
       None # replicate (length [''T1'']) None @ Some ''i/o timeout'' # [] \<and>
   fst (tokenRedis_DeleteByConsumerID 5 ''C1''
          (redisT1T2\<lparr>redis_faults := [None, None, Some ''i/o timeout'']\<rparr>)) =
       Panics (LibError ''i/o timeout'') \<and>
   redis_lookup 5 (snd (tokenRedis_DeleteByConsumerID 5 ''C1''
          (redisT1T2\<lparr>redis_faults := [None, None, Some ''i/o timeout'']\<rparr>))) ''token:consumer:C1'' =
       Some (Members [''T1'', ''T2'']) \<and>
   redis_lookup 5 (snd (tokenRedis_DeleteByConsumerID 5 ''C1''
          (redisT1T2\<lparr>redis_faults := [None, None, Some ''i/o timeout'']\<rparr>))) ''token:id:T1'' = None \<and>
   redis_lookup 5 (snd (tokenRedis_DeleteByConsumerID 5 ''C1''
          (redisT1T2\<lparr>redis_faults := [None, None, Some ''i/o timeout'']\<rparr>))) ''token:id:T2'' =
       Some (JSON tokenT2)"
  using tokenRedis_DeleteByConsumerID_aborts [of 5
      "redisT1T2\<lparr>redis_faults := [None, None, Some ''i/o timeout'']\<rparr>" "''C1''" "[''T1'']" "''T2''" "[]"
      "''i/o timeout''" "[]" "''T1''"]
    tokenRedis_DeleteByConsumerID_aborts [of 5
      "redisT1T2\<lparr>redis_faults := [None, None, Some ''i/o timeout'']\<rparr>" "''C1''" "[''T1'']" "''T2''" "[]"
      "''i/o timeout''" "[]" "''T2''"]
  by (simp add: redisT1T2_eq redis_lookup_def mstime_def sample_defs)

end
